theory Spec2Isabelle
  imports Complex_Main
begin

section \<open>Data model\<close>

text \<open>
  Python names starting with an underscore are written with the prefix \<open>u_\<close>
  (\<open>_merge_positions\<close> is \<open>u_merge_positions\<close>), since an Isabelle name cannot
  start with an underscore. Pixel coordinates are integers, as the blob detector
  produces them (\<open>int(blob.pt[0])\<close> in \<open>get_blobs\<close>).
\<close>

type_synonym point = "int \<times> int"

datatype error =
  IndexError | AttributeError | TypeError | AssertionError | ValueError string | ZeroDivisionError

text \<open>
  Modelled from the spec: the class \<open>Position\<close> (position.py is not among the sources).
  Section 3 of the specification gives it as a 2D coordinate with a visibility flag; the
  "no estimate" value is the empty tuple \<open>()\<close> of the source, here \<open>None\<close> of
  \<open>Position option\<close>. The coordinates are a numeric pair on which \<open>+=\<close> and
  \<open>//=\<close> of \<open>_merge_positions\<close> act coordinate-wise, as on an array.
\<close>

record Position =
  position :: point
  visibility :: bool

text \<open>
  Modelled from the spec: the Kalman filter of a marker (marker_class is not among the
  sources, and the filter's arithmetic is an external collaborator). The state of the
  filter is determined by the calls it has received, so it is represented by that
  sequence of calls.
\<close>

datatype kalman_call = Predict | Correct point

text \<open>
  Modelled from the spec: the class \<open>Marker\<close> (section 3: name, position (x, y), static
  flag, Kalman state). \<open>marker.pos[:2]\<close> of the source is the field \<open>pos\<close>.
\<close>

record Marker =
  name :: string
  pos :: point
  is_static :: bool
  kalman_filter :: "kalman_call list"

text \<open>The marker set is the ordered sequence \<open>marker_set.markers\<close>.\<close>

type_synonym MarkerSet = "Marker list"

record 'img Frames =
  color :: 'img
  width :: int
  height :: int

text \<open>
  The external collaborators, taken as parameters: the optical-flow adapter (its
  construction, \<open>get_optical_flow_pos\<close> and \<open>__getitem__\<close>, which yields the
  estimation and the status), the arithmetic of the Kalman prediction, the cropping of the
  image and blob detection on a crop, the image loader and the keyboard.
\<close>

record ('img, 'o) collaborators =
  flow_init :: "'img \<Rightarrow> point list \<Rightarrow> 'o"
  get_optical_flow_pos :: "'o \<Rightarrow> 'img \<Rightarrow> 'o"
  flow_at :: "'o \<Rightarrow> nat \<Rightarrow> point \<times> int"
  kalman_prediction :: "kalman_call list \<Rightarrow> point"
  crop_image :: "int \<times> int \<times> int \<times> int \<Rightarrow> 'img \<Rightarrow> 'img"
  detect_blobs :: "'img \<Rightarrow> point list"
  load_img :: "int \<Rightarrow> 'img option \<times> 'img option"
  quit_pressed :: "int \<Rightarrow> bool"

text \<open>
  The state of a \<open>Tracker\<close>. \<open>DELTA\<close> is the class attribute (8 unless reassigned, as
  the test driver does). \<open>blobs\<close> is \<open>None\<close> in the source until the first call of
  \<open>track\<close>, which assigns it before any read; here it starts as the empty list. An entry
  of \<open>estimated_positions\<close> is \<open>None\<close> (as the constructor leaves it) or a list.
\<close>

record 'o Tracker =
  marker_set :: MarkerSet
  optical_flow :: "'o option"
  kalman :: bool
  naive :: bool
  blobs :: "point list"
  positions :: "Position option list"
  estimated_positions :: "Position list option list"
  DELTA :: int

section \<open>Position and marker helpers\<close>

definition sq_dist :: "point \<Rightarrow> point \<Rightarrow> int" where
  "sq_dist a b = (fst a - fst b) * (fst a - fst b) + (snd a - snd b) * (snd a - snd b)"

text \<open>
  Modelled from the spec: \<open>Position.distance_from_marker\<close>, the Euclidean distance
  between the position and the marker's stored position (the displacement of section
  4.1, step 4).
\<close>

definition distance_from_marker :: "Position \<Rightarrow> Marker \<Rightarrow> real" where
  "distance_from_marker p m = sqrt (real_of_int (sq_dist (position p) (pos m)))"

text \<open>
  Modelled from the spec: \<open>Position.__eq__\<close>. Two positions are equal iff both are
  empty or both have identical coordinates, whatever their visibility.
\<close>

fun Position_eq :: "Position option \<Rightarrow> Position option \<Rightarrow> bool" where
  "Position_eq None None = True"
| "Position_eq (Some p) (Some q) = (position p = position q)"
| "Position_eq _ _ = False"

text \<open>
  Modelled from the spec: \<open>Position.check_bounds\<close>, which clamps x to [0, max_x] and
  y to [0, max_y] independently.
\<close>

definition Position_check_bounds :: "Position \<Rightarrow> int \<Rightarrow> int \<Rightarrow> Position" where
  "Position_check_bounds p max_x max_y =
     p\<lparr>position := (max 0 (min max_x (fst (position p))), max 0 (min max_y (snd (position p))))\<rparr>"

text \<open>
  Modelled from the spec: \<open>find_closest_blob\<close> (rgbd_mocap.utils is not among the
  sources). The blob minimising the Euclidean distance to the anchor is picked, ties
  broken by the order of the list; it is a match when it lies within the radius
  \<open>delta\<close>. Without a match the anchor is returned with \<open>False\<close>.
\<close>

fun closest :: "point \<Rightarrow> point list \<Rightarrow> point option" where
  "closest c [] = None"
| "closest c (b # bs) =
     (case closest c bs of
        None \<Rightarrow> Some b
      | Some b' \<Rightarrow> if sq_dist b c \<le> sq_dist b' c then Some b else Some b')"

definition find_closest_blob :: "point \<Rightarrow> point list \<Rightarrow> int \<Rightarrow> point \<times> bool" where
  "find_closest_blob c bs delta =
     (case closest c bs of
        None \<Rightarrow> (c, False)
      | Some b \<Rightarrow> if 0 \<le> delta \<and> sq_dist b c \<le> delta * delta then (b, True) else (c, False))"

text \<open>
  Modelled from the spec: \<open>Marker.predict_from_kalman\<close> and
  \<open>Marker.correct_from_kalman\<close>: each hands one call to the marker's filter.
\<close>

definition predict_from_kalman :: "('img, 'o) collaborators \<Rightarrow> Marker \<Rightarrow> point \<times> Marker" where
  "predict_from_kalman E m =
     (let h = kalman_filter m @ [Predict] in (kalman_prediction E h, m\<lparr>kalman_filter := h\<rparr>))"

definition correct_from_kalman :: "Marker \<Rightarrow> point \<Rightarrow> Marker" where
  "correct_from_kalman m p = m\<lparr>kalman_filter := kalman_filter m @ [Correct p]\<rparr>"

text \<open>A \<open>for\<close> loop whose body may raise: the first error ends the loop.\<close>

fun fold_err :: "('a \<Rightarrow> 's \<Rightarrow> error + 's) \<Rightarrow> 'a list \<Rightarrow> 's \<Rightarrow> error + 's" where
  "fold_err f [] s = Inr s"
| "fold_err f (x # xs) s = (case f x s of Inl e \<Rightarrow> Inl e | Inr s' \<Rightarrow> fold_err f xs s')"

section \<open>The tracker (tracking/tracking_markers.py)\<close>

definition Tracker_init ::
  "('img, 'o) collaborators \<Rightarrow> 'img Frames \<Rightarrow> MarkerSet \<Rightarrow> bool \<Rightarrow> bool \<Rightarrow> bool \<Rightarrow> int \<Rightarrow> 'o Tracker" where
  "Tracker_init E frame ms nv opt kl delta =
     \<lparr>marker_set = ms,
      optical_flow = (if opt then Some (flow_init E (color frame) (map pos ms)) else None),
      kalman = kl,
      naive = nv,
      blobs = [],
      positions = [],
      estimated_positions = replicate (length ms) None,
      DELTA = delta\<rparr>"

text \<open>
  \<open>self.estimated_positions[index].append(p)\<close>. It is only reached from
  \<open>u_track_marker\<close>, after that has stored a list at \<open>index\<close>.
\<close>

definition append_estimated :: "'o Tracker \<Rightarrow> nat \<Rightarrow> Position \<Rightarrow> 'o Tracker" where
  "append_estimated t index p =
     t\<lparr>estimated_positions :=
         (estimated_positions t)[index := map_option (\<lambda>l. l @ [p]) (estimated_positions t ! index)]\<rparr>"

definition u_get_blob_near_position :: "'o Tracker \<Rightarrow> point \<Rightarrow> nat \<Rightarrow> 'o Tracker \<times> bool" where
  "u_get_blob_near_position t anchor index =
     (let t1 = append_estimated t index \<lparr>position = anchor, visibility = False\<rparr>;
          found = find_closest_blob anchor (blobs t1) (DELTA t1);
          visible = snd found
      in (if visible then append_estimated t1 index \<lparr>position = fst found, visibility = visible\<rparr>
          else t1, visible))"

text \<open>
  The loop of \<open>_merge_positions\<close>: the running sum of the visible coordinates and their
  count.
\<close>

fun merge_loop :: "Position list \<Rightarrow> point \<times> int \<Rightarrow> point \<times> int" where
  "merge_loop [] acc = acc"
| "merge_loop (p # ps) (final_position, visibility_count) =
     merge_loop ps
       (if visibility p
        then ((fst final_position + fst (position p), snd final_position + snd (position p)),
              visibility_count + 1)
        else (final_position, visibility_count))"

text \<open>
  \<open>not positions\<close> holds of \<open>None\<close> and of the empty list. \<open>//=\<close> is the floor
  division of each coordinate.
\<close>

definition u_merge_positions :: "Position list option \<Rightarrow> Position option" where
  "u_merge_positions ps =
     (if ps = None \<or> ps = Some [] then None
      else let acc = merge_loop (the ps) ((0, 0), 0);
               final_position = fst acc;
               visibility_count = snd acc
           in if visibility_count = 0 then None
              else Some \<lparr>position = (fst final_position div visibility_count,
                                     snd final_position div visibility_count),
                         visibility = (visibility_count > 0)\<rparr>)"

definition merge_positions :: "'o Tracker \<Rightarrow> 'o Tracker" where
  "merge_positions t = t\<lparr>positions := map u_merge_positions (estimated_positions t)\<rparr>"

text \<open>
  \<open>_track_marker\<close>. The value it returns is dropped by its only caller, \<open>track\<close>, so
  the model returns the state alone. Assigning to \<open>estimated_positions[index]\<close> raises
  IndexError out of range.
\<close>

definition u_track_marker ::
  "('img, 'o) collaborators \<Rightarrow> nat \<times> Marker \<Rightarrow> 'o Tracker \<Rightarrow> error + 'o Tracker" where
  "u_track_marker E im t =
     (let index = fst im; marker = snd im in
      if is_static marker then Inr t
      else if length (estimated_positions t) \<le> index then Inl IndexError
      else
        let t0 = t\<lparr>estimated_positions := (estimated_positions t)[index := Some []]\<rparr>;
            t1 = (if naive t0 then fst (u_get_blob_near_position t0 (pos marker) index) else t0);
            t2 = (case optical_flow t1 of
                    None \<Rightarrow> t1
                  | Some fl \<Rightarrow>
                      let r = flow_at E fl index; estimation = fst r; st = snd r
                      in if st = 1 then fst (u_get_blob_near_position t1 estimation index) else t1);
            t3 = (if kalman t2
                  then let r = predict_from_kalman E marker; prediction = fst r;
                           t2' = t2\<lparr>marker_set := (marker_set t2)[index := snd r]\<rparr>
                       in fst (u_get_blob_near_position t2' prediction index)
                  else t2)
        in Inr t3)"

text \<open>
  \<open>_correct_overlapping\<close>. \<open>self.marker_set[i]\<close> raises IndexError out of range; a
  position that is \<open>()\<close> has no \<open>distance_from_marker\<close>.
\<close>

definition u_correct_overlapping :: "nat \<Rightarrow> nat \<Rightarrow> 'o Tracker \<Rightarrow> error + 'o Tracker" where
  "u_correct_overlapping i j t =
     (case (positions t ! i, positions t ! j) of
        (Some p_i, Some p_j) \<Rightarrow>
          if length (marker_set t) \<le> i \<or> length (marker_set t) \<le> j then Inl IndexError
          else
            if distance_from_marker p_i (marker_set t ! i) < distance_from_marker p_j (marker_set t ! j)
            then Inr (t\<lparr>positions := (positions t)[j := Some (p_j\<lparr>position := pos (marker_set t ! j)\<rparr>)]\<rparr>)
            else Inr (t\<lparr>positions := (positions t)[i := Some (p_i\<lparr>position := pos (marker_set t ! i)\<rparr>)]\<rparr>)
      | _ \<Rightarrow> Inl AttributeError)"

text \<open>The body of the inner loop of \<open>check_tracking\<close>.\<close>

definition check_pair :: "nat \<Rightarrow> nat \<Rightarrow> 'o Tracker \<Rightarrow> error + 'o Tracker" where
  "check_pair i j t =
     (if Position_eq (positions t ! i) (positions t ! j) \<and> positions t ! i \<noteq> None
      then u_correct_overlapping i j t else Inr t)"

definition check_tracking :: "'o Tracker \<Rightarrow> error + 'o Tracker" where
  "check_tracking t =
     (let nb_pos = length (positions t)
      in fold_err (\<lambda>i. fold_err (\<lambda>j. check_pair i j) [i + 1..<nb_pos]) [0..<nb_pos] t)"

definition check_bounds :: "'img Frames \<Rightarrow> 'o Tracker \<Rightarrow> 'o Tracker" where
  "check_bounds frame t =
     (let max_x = width frame - 1; max_y = height frame - 1
      in t\<lparr>positions := map (map_option (\<lambda>p. Position_check_bounds p max_x max_y)) (positions t)\<rparr>)"

text \<open>
  The body of the last loop of \<open>track\<close>, at counter \<open>i\<close>: \<open>self.positions[i]\<close> raises
  IndexError out of range.
\<close>

definition correct_marker :: "nat \<Rightarrow> 'o Tracker \<Rightarrow> error + 'o Tracker" where
  "correct_marker i t =
     (if length (positions t) \<le> i then Inl IndexError
      else case positions t ! i of
             None \<Rightarrow> Inr t
           | Some p \<Rightarrow>
               Inr (t\<lparr>marker_set := (marker_set t)[i := correct_from_kalman (marker_set t ! i) (position p)]\<rparr>))"

definition track ::
  "('img, 'o) collaborators \<Rightarrow> 'img Frames \<Rightarrow> point list \<Rightarrow> 'o Tracker \<Rightarrow>
     error + ((Position option list \<times> Position list option list) \<times> 'o Tracker)" where
  "track E frame bs t =
     (let t0 = t\<lparr>blobs := bs\<rparr>;
          t1 = (case optical_flow t0 of
                  None \<Rightarrow> t0
                | Some fl \<Rightarrow> t0\<lparr>optical_flow := Some (get_optical_flow_pos E fl (color frame))\<rparr>)
      in case fold_err (u_track_marker E) (enumerate 0 (marker_set t1)) t1 of
           Inl e \<Rightarrow> Inl e
         | Inr t2 \<Rightarrow>
             (case check_tracking (merge_positions t2) of
                Inl e \<Rightarrow> Inl e
              | Inr t3 \<Rightarrow>
                  (case fold_err correct_marker [0..<length (marker_set t3)] (check_bounds frame t3) of
                     Inl e \<Rightarrow> Inl e
                   | Inr t4 \<Rightarrow> Inr ((positions t4, estimated_positions t4), t4))))"

text \<open>
  \<open>set_marker_pos\<close> (tracking/test_tracking.py): the assertion comes before the loop.
\<close>

definition set_marker_pos :: "MarkerSet \<Rightarrow> Position option list \<Rightarrow> error + MarkerSet" where
  "set_marker_pos ms ps =
     (if length ms \<noteq> length ps then Inl AssertionError
      else Inr (fold (\<lambda>i ms'. case ps ! i of
                                None \<Rightarrow> ms'
                              | Some p \<Rightarrow> ms'[i := (ms' ! i)\<lparr>pos := position p\<rparr>])
                     [0..<length ps] ms))"

section \<open>Crops and handlers (processing/process_handler.py, process_image/process_image.py)\<close>

text \<open>
  Modelled from the spec: the class \<open>Crop\<close> (crop/crop.py is not among the sources). It
  binds a region (x, y, w, h), a marker set and the blob-filter pipeline; the marker set
  is the one its tracker holds (\<open>crop.marker_set\<close> is \<open>marker_set (tracker crop)\<close>).
\<close>

record 'o Crop =
  area :: "int \<times> int \<times> int \<times> int"
  tracker :: "'o Tracker"

text \<open>
  Modelled from the spec: \<open>Crop.track_markers\<close> (section 4.4, the work of one worker):
  blob extraction on the crop's region of the current frame, then the tracker. The frame
  is the pair (color, depth) of the shared frame buffer.
\<close>

definition track_markers ::
  "('img, 'o) collaborators \<Rightarrow> 'img \<times> 'img \<Rightarrow> 'o Crop \<Rightarrow>
     error + ((point list \<times> Position option list \<times> Position list option list) \<times> 'o Crop)" where
  "track_markers E frames crop =
     (let img = crop_image E (area crop) (fst frames);
          frame = \<lparr>color = img, width = fst (snd (snd (area crop))), height = snd (snd (snd (area crop)))\<rparr>;
          bs = detect_blobs E img
      in case track E frame bs (tracker crop) of
           Inl e \<Rightarrow> Inl e
         | Inr r \<Rightarrow> Inr ((bs, fst (fst r), snd (fst r)), crop\<lparr>tracker := snd r\<rparr>))"

text \<open>
  \<open>print_estimated_positions\<close> (tracking/test_tracking.py) iterates over every entry
  of the diagnostics; an entry that is \<open>None\<close> is not iterable. Drawing itself changes
  no state of the model.
\<close>

definition print_estimated_positions :: "Position list option list \<Rightarrow> error + unit" where
  "print_estimated_positions estimated_pos = (if None \<in> set estimated_pos then Inl TypeError else Inr ())"

record 'o handler =
  crops :: "'o Crop list"

text \<open>
  The body of the loop of \<open>_process_function\<close>, up to the display: the markers of the
  crop are written back with \<open>set_marker_pos\<close>.
\<close>

definition process_crop ::
  "('img, 'o) collaborators \<Rightarrow> 'img \<times> 'img \<Rightarrow> 'o Crop \<Rightarrow>
     error + (Position list option list \<times> 'o Crop)" where
  "process_crop E frames crop =
     (case track_markers E frames crop of
        Inl e \<Rightarrow> Inl e
      | Inr r \<Rightarrow>
          (let positions' = fst (snd (fst r)); estimate_positions = snd (snd (fst r)); crop' = snd r
           in case set_marker_pos (marker_set (tracker crop')) positions' of
                Inl e \<Rightarrow> Inl e
              | Inr ms \<Rightarrow> Inr (estimate_positions, crop'\<lparr>tracker := (tracker crop')\<lparr>marker_set := ms\<rparr>\<rparr>)))"

text \<open>\<open>ImageProcessingHandler\<close> (process_image/process_image.py).\<close>

definition IPH_process_function ::
  "('img, 'o) collaborators \<Rightarrow> 'img \<times> 'img \<Rightarrow> 'o handler \<Rightarrow> error + 'o handler" where
  "IPH_process_function E frames h =
     fold_err (\<lambda>i h'. case process_crop E frames (crops h' ! i) of
                        Inl e \<Rightarrow> Inl e
                      | Inr r \<Rightarrow>
                          (case print_estimated_positions (fst r) of
                             Inl e \<Rightarrow> Inl e
                           | Inr _ \<Rightarrow> Inr (h'\<lparr>crops := (crops h')[i := snd r]\<rparr>)))
              [0..<length (crops h)] h"

definition IPH_send_process ::
  "('img, 'o) collaborators \<Rightarrow> 'img \<times> 'img \<Rightarrow> int \<Rightarrow> 'o handler \<Rightarrow> error + 'o handler" where
  "IPH_send_process E frames order h = IPH_process_function E frames h"

definition IPH_receive_process :: "'o handler \<Rightarrow> 'o handler" where
  "IPH_receive_process h = h"

definition IPH_send_and_receive_process ::
  "('img, 'o) collaborators \<Rightarrow> 'img \<times> 'img \<Rightarrow> int \<Rightarrow> 'o handler \<Rightarrow> error + 'o handler" where
  "IPH_send_and_receive_process E frames order h =
     (case IPH_send_process E frames order h of
        Inl e \<Rightarrow> Inl e
      | Inr h' \<Rightarrow> Inr (IPH_receive_process h'))"

definition IPH_end_process :: "'o handler \<Rightarrow> 'o handler" where
  "IPH_end_process h = h"




section \<open>The main loop (process_image/process_image.py)\<close>

text \<open>
  The state of \<open>ProcessImage\<close> with the handler of the non-shared configuration
  (\<open>ImageProcessingHandler\<close>). The marker sets are the objects the crops hold.
\<close>

record ('img, 'o) ProcessImage =
  index :: int
  start_index :: int
  end_index :: int
  frames :: "'img \<times> 'img"
  process_handler :: "'o handler"

definition u_load_img :: "('img, 'o) collaborators \<Rightarrow> ('img, 'o) ProcessImage \<Rightarrow> 'img option \<times> 'img option" where
  "u_load_img E s = load_img E (index s)"

definition u_update_img ::
  "('img, 'o) ProcessImage \<Rightarrow> 'img option \<Rightarrow> 'img option \<Rightarrow> bool \<times> ('img, 'o) ProcessImage" where
  "u_update_img s c d =
     (if c = None \<or> d = None then (False, s)
      else (True, s\<lparr>frames := (the c, the d)\<rparr>))"

definition u_process_after_loading ::
  "('img, 'o) collaborators \<Rightarrow> ('img, 'o) ProcessImage \<Rightarrow> error + (bool \<times> ('img, 'o) ProcessImage)" where
  "u_process_after_loading E s =
     (let loaded = u_load_img E s;
          r = u_update_img s (fst loaded) (snd loaded)
      in if \<not> fst r then Inr (False, snd r)
         else case IPH_send_and_receive_process E (frames (snd r)) 1 (process_handler (snd r)) of
                Inl e \<Rightarrow> Inl e
              | Inr h \<Rightarrow> Inr (True, (snd r)\<lparr>process_handler := h\<rparr>))"

definition u_process_while_loading ::
  "('img, 'o) collaborators \<Rightarrow> ('img, 'o) ProcessImage \<Rightarrow> error + (bool \<times> ('img, 'o) ProcessImage)" where
  "u_process_while_loading E s =
     (case IPH_send_process E (frames s) 1 (process_handler s) of
        Inl e \<Rightarrow> Inl e
      | Inr h \<Rightarrow>
          (let s1 = s\<lparr>process_handler := h\<rparr>;
               loaded = u_load_img E s1;
               s2 = s1\<lparr>process_handler := IPH_receive_process (process_handler s1)\<rparr>
           in Inr (u_update_img s2 (fst loaded) (snd loaded))))"

text \<open>
  The \<open>while\<close> loop of \<open>process\<close>. It need not end (an \<open>end_index\<close> below the index
  is never met), so not returning is the value \<open>None\<close>.
\<close>

partial_function (option) process_loop ::
  "('img, 'o) collaborators \<Rightarrow> ('img, 'o) ProcessImage \<Rightarrow> (error + ('img, 'o) ProcessImage) option" where
  "process_loop E s =
     (if index s = end_index s then Some (Inr s)
      else case u_process_while_loading E (s\<lparr>index := index s + 1\<rparr>) of
             Inl e \<Rightarrow> Some (Inl e)
           | Inr r \<Rightarrow>
               if \<not> fst r then process_loop E (snd r)
               else if quit_pressed E (index (snd r)) then Some (Inr (snd r))
               else process_loop E (snd r))"

text \<open>
  \<open>process\<close>: the loop, \<open>end_process\<close>, and the three averages, each a division by the
  number of images (the time measurements are not part of the model).
\<close>

definition process ::
  "('img, 'o) collaborators \<Rightarrow> ('img, 'o) ProcessImage \<Rightarrow> (error + ('img, 'o) ProcessImage) option" where
  "process E s =
     (case process_loop E s of
        None \<Rightarrow> None
      | Some (Inl e) \<Rightarrow> Some (Inl e)
      | Some (Inr s') \<Rightarrow>
          (let s'' = s'\<lparr>process_handler := IPH_end_process (process_handler s')\<rparr>;
               nb_img = index s'' - start_index s''
           in if nb_img = 0 then Some (Inl ZeroDivisionError) else Some (Inr s'')))"

section \<open>The camera converter (camera/camera_converter.py)\<close>

text \<open>
  A value of the parameter \<open>method\<close>: one of the two methods of \<open>RgbdImages\<close> that the
  docstring names, or any other callable.
\<close>

datatype 'f callable =
  RgbdImages_get_global_markers_pos
| RgbdImages_get_merged_global_markers_pos
| Other_callable 'f


section \<open>What the tracker stores for one marker\<close>

text \<open>
  The entries one estimator contributes at an anchor (the reference entry, then the
  matched blob if there is one), and the diagnostics of one marker as a single list, in
  the order naive, optical flow, Kalman. \<open>u_track_marker\<close> is shown below to store
  exactly this list.
\<close>

definition near :: "point list \<Rightarrow> int \<Rightarrow> point \<Rightarrow> Position list" where
  "near bs delta anchor =
     \<lparr>position = anchor, visibility = False\<rparr> #
     (if snd (find_closest_blob anchor bs delta)
      then [\<lparr>position = fst (find_closest_blob anchor bs delta), visibility = True\<rparr>] else [])"

definition candidates :: "('img, 'o) collaborators \<Rightarrow> 'o Tracker \<Rightarrow> nat \<Rightarrow> Marker \<Rightarrow> Position list" where
  "candidates E t i marker =
     (if naive t then near (blobs t) (DELTA t) (pos marker) else []) @
     (case optical_flow t of
        None \<Rightarrow> []
      | Some fl \<Rightarrow> if snd (flow_at E fl i) = 1
                   then near (blobs t) (DELTA t) (fst (flow_at E fl i)) else []) @
     (if kalman t then near (blobs t) (DELTA t) (kalman_prediction E (kalman_filter marker @ [Predict]))
      else [])"

section \<open>Concrete inputs\<close>

text \<open>
  Collaborators for the examples: no optical flow, a detector that finds one blob at
  (12, 11), a loader that fails at every index, no key pressed.
\<close>

definition ex_collaborators :: "(unit, unit) collaborators" where
  "ex_collaborators =
     \<lparr>flow_init = (\<lambda>_ _. ()),
      get_optical_flow_pos = (\<lambda>_ _. ()),
      flow_at = (\<lambda>_ _. ((0, 0), 0)),
      kalman_prediction = (\<lambda>_. (0, 0)),
      crop_image = (\<lambda>_ img. img),
      detect_blobs = (\<lambda>_. [(12, 11)]),
      load_img = (\<lambda>_. (None, None)),
      quit_pressed = (\<lambda>_. False)\<rparr>"

definition ex_frame :: "unit Frames" where
  "ex_frame = \<lparr>color = (), width = 100, height = 100\<rparr>"

definition ex_marker :: "point \<Rightarrow> bool \<Rightarrow> Marker" where
  "ex_marker p static = \<lparr>name = ''a'', pos = p, is_static = static, kalman_filter = []\<rparr>"

text \<open>A tracker with only the naive estimator enabled and DELTA = 8.\<close>

definition ex_tracker :: "MarkerSet \<Rightarrow> unit Tracker" where
  "ex_tracker ms = Tracker_init ex_collaborators ex_frame ms True False False 8"

text \<open>
  A \<open>ProcessImage\<close> at index 0 that ends at index 1, with one crop of 100 x 100
  holding one marker at (10, 10).
\<close>

definition ex_process_image :: "(unit, unit) ProcessImage" where
  "ex_process_image =
     \<lparr>index = 0, start_index = 0, end_index = 1, frames = ((), ()),
      process_handler = \<lparr>crops = [\<lparr>area = (0, 0, 100, 100), tracker = ex_tracker [ex_marker (10, 10) False]\<rparr>]\<rparr>\<rparr>"

section \<open>Properties of the helpers\<close>

text \<open>
  Two Euclidean distances compare as their squares do, which is how the comparison is
  evaluated.
\<close>

lemma distance_from_marker_less [simp, code_unfold]:
  "distance_from_marker p m < distance_from_marker q m'
     \<longleftrightarrow> sq_dist (position p) (pos m) < sq_dist (position q) (pos m')"
  by (simp add: distance_from_marker_def)



section \<open>Merging the candidates of one marker\<close>

lemma merge_loop_sum:
  "merge_loop ps ((a, b), n) =
     ((a + sum_list (map (fst \<circ> position) (filter visibility ps)),
       b + sum_list (map (snd \<circ> position) (filter visibility ps))),
      n + int (length (filter visibility ps)))"
  by (induction ps arbitrary: a b n) auto

lemma u_merge_positions_Some:
  "u_merge_positions (Some ps) =
     (let vs = filter visibility ps in
      if vs = [] then None
      else Some \<lparr>position = (sum_list (map (fst \<circ> position) vs) div int (length vs),
                             sum_list (map (snd \<circ> position) vs) div int (length vs)),
                 visibility = True\<rparr>)"
proof (cases "ps = []")
  case True
  then show ?thesis by (simp add: u_merge_positions_def)
next
  case False
  then show ?thesis
    by (simp add: u_merge_positions_def merge_loop_sum Let_def)
qed

text \<open>
  Claim C4. Merging a list of candidates yields the coordinate-wise average (the integer
  average, rounded down by \<open>//\<close>) of exactly the visible candidates, with visibility
  true; with no visible candidate the result is empty; and a list whose only visible
  candidate is \<open>p\<close> merges to the coordinates of \<open>p\<close>, visible.
\<close>

theorem merge_positions_average:
  "u_merge_positions (Some ps) =
     (let vs = filter visibility ps in
      if vs = [] then None
      else Some \<lparr>position = (sum_list (map (fst \<circ> position) vs) div int (length vs),
                             sum_list (map (snd \<circ> position) vs) div int (length vs)),
                 visibility = True\<rparr>)
   \<and> (filter visibility ps = [p] \<longrightarrow>
        u_merge_positions (Some ps) = Some \<lparr>position = position p, visibility = True\<rparr>)"
proof (intro conjI impI)
  show "u_merge_positions (Some ps) =
     (let vs = filter visibility ps in
      if vs = [] then None
      else Some \<lparr>position = (sum_list (map (fst \<circ> position) vs) div int (length vs),
                             sum_list (map (snd \<circ> position) vs) div int (length vs)),
                 visibility = True\<rparr>)"
    by (rule u_merge_positions_Some)
next
  assume "filter visibility ps = [p]"
  then show "u_merge_positions (Some ps) = Some \<lparr>position = position p, visibility = True\<rparr>"
    by (simp add: u_merge_positions_Some)
qed

theorem merge_positions_average_witness:
  "filter visibility
     [\<lparr>position = (10, 10), visibility = False\<rparr>, \<lparr>position = (12, 11), visibility = True\<rparr>]
     = [\<lparr>position = (12, 11), visibility = True\<rparr>]
   \<and> u_merge_positions
       (Some [\<lparr>position = (10, 10), visibility = False\<rparr>, \<lparr>position = (12, 11), visibility = True\<rparr>])
     = Some \<lparr>position = (12, 11), visibility = True\<rparr>"
  using merge_positions_average
    [of "[\<lparr>position = (10, 10), visibility = False\<rparr>, \<lparr>position = (12, 11), visibility = True\<rparr>]"
        "\<lparr>position = (12, 11), visibility = True\<rparr>"]
  by simp

section \<open>Writing the positions back\<close>

lemma set_marker_pos_fold:
  "n \<le> length ps \<Longrightarrow> length ms = length ps \<Longrightarrow>
   length (fold (\<lambda>i ms'. case ps ! i of None \<Rightarrow> ms'
                          | Some p \<Rightarrow> ms'[i := (ms' ! i)\<lparr>pos := position p\<rparr>]) [0..<n] ms) = length ms
   \<and> (\<forall>i<length ms.
        fold (\<lambda>i ms'. case ps ! i of None \<Rightarrow> ms'
                       | Some p \<Rightarrow> ms'[i := (ms' ! i)\<lparr>pos := position p\<rparr>]) [0..<n] ms ! i =
        (if i < n then (case ps ! i of None \<Rightarrow> ms ! i | Some p \<Rightarrow> (ms ! i)\<lparr>pos := position p\<rparr>)
         else ms ! i))"
proof (induction n)
  case 0
  then show ?case by simp
next
  case (Suc n)
  then show ?case
    by (auto simp: nth_list_update less_Suc_eq split: option.splits)
qed

lemma set_marker_pos_Inr:
  "length ms = length ps \<Longrightarrow>
   \<exists>ms'. set_marker_pos ms ps = Inr ms' \<and> length ms' = length ms
     \<and> (\<forall>i<length ms. ms' ! i =
           (case ps ! i of None \<Rightarrow> ms ! i | Some p \<Rightarrow> (ms ! i)\<lparr>pos := position p\<rparr>))"
  using set_marker_pos_fold [of "length ps" ps ms]
  by (auto simp: set_marker_pos_def)

text \<open>
  Claim C8. When the number of positions differs from the number of markers,
  \<open>set_marker_pos\<close> ends with the assertion error and no marker is written; when the
  numbers agree it succeeds, and marker \<open>i\<close> gets the coordinates of position \<open>i\<close> if
  that position is not empty and is left as it was otherwise.
\<close>

theorem set_marker_pos_fail_fast:
  "(length ms \<noteq> length ps \<longrightarrow> set_marker_pos ms ps = Inl AssertionError)
   \<and> (length ms = length ps \<longrightarrow>
        (\<exists>ms'. set_marker_pos ms ps = Inr ms' \<and> length ms' = length ms
           \<and> (\<forall>i<length ms. ms' ! i =
                 (case ps ! i of None \<Rightarrow> ms ! i | Some p \<Rightarrow> (ms ! i)\<lparr>pos := position p\<rparr>))))"
  using set_marker_pos_Inr [of ms ps]
  by (auto simp: set_marker_pos_def)

theorem set_marker_pos_fail_fast_witness:
  "set_marker_pos [\<lparr>name = ''a'', pos = (10, 10), is_static = False, kalman_filter = []\<rparr>] []
     = Inl AssertionError
   \<and> (\<exists>ms'. set_marker_pos
          [\<lparr>name = ''a'', pos = (10, 10), is_static = False, kalman_filter = []\<rparr>,
           \<lparr>name = ''b'', pos = (20, 20), is_static = False, kalman_filter = []\<rparr>]
          [Some \<lparr>position = (12, 11), visibility = True\<rparr>, None] = Inr ms'
        \<and> ms' ! 0 = \<lparr>name = ''a'', pos = (12, 11), is_static = False, kalman_filter = []\<rparr>
        \<and> ms' ! 1 = \<lparr>name = ''b'', pos = (20, 20), is_static = False, kalman_filter = []\<rparr>)"
proof -
  let ?a = "\<lparr>name = ''a'', pos = (10, 10), is_static = False, kalman_filter = []\<rparr>"
  let ?b = "\<lparr>name = ''b'', pos = (20, 20), is_static = False, kalman_filter = []\<rparr>"
  let ?ps = "[Some \<lparr>position = (12, 11), visibility = True\<rparr>, None]"
  have 1: "set_marker_pos [?a] [] = Inl AssertionError"
    using set_marker_pos_fail_fast [of "[?a]" "[]"] by simp
  obtain ms' where r: "set_marker_pos [?a, ?b] ?ps = Inr ms'"
    and n: "\<forall>i<length [?a, ?b]. ms' ! i =
              (case ?ps ! i of None \<Rightarrow> [?a, ?b] ! i | Some p \<Rightarrow> ([?a, ?b] ! i)\<lparr>pos := position p\<rparr>)"
    using set_marker_pos_fail_fast [of "[?a, ?b]" ?ps] by auto
  from n have "ms' ! 0 = ?a\<lparr>pos := (12, 11)\<rparr>" "ms' ! 1 = ?b"
    by simp_all
  with 1 r show ?thesis by simp
qed

section \<open>The stages of one tick\<close>




lemma candidates_frame [simp]:
  "candidates E (t\<lparr>estimated_positions := a, marker_set := b\<rparr>) k m = candidates E t k m"
  by (simp add: candidates_def split: option.splits)







section \<open>The result of one tick\<close>




section \<open>Static markers\<close>

text \<open>
  Claim C1, evaluated on the code. One static marker stored at (10, 10), the naive
  estimator enabled, a blob at (12, 11): \<open>track\<close> returns the empty position \<open>()\<close>
  for the marker and \<open>None\<close> as its diagnostics, not the stored position and an empty
  list. The value \<open>marker.pos[:2]\<close> that \<open>u_track_marker\<close> returns for a static
  marker is dropped by \<open>track\<close>, and the marker's entry of the diagnostics is never
  assigned.
\<close>

theorem static_marker_track_evaluation:
  "track ex_collaborators ex_frame [(12, 11)] (ex_tracker [ex_marker (10, 10) True]) =
     Inr (([None], [None]),
          \<lparr>marker_set = [\<lparr>name = ''a'', pos = (10, 10), is_static = True, kalman_filter = []\<rparr>],
           optical_flow = None, kalman = False, naive = True, blobs = [(12, 11)],
           positions = [None], estimated_positions = [None], DELTA = 8\<rparr>)"
  by code_simp

text \<open>
  With such a marker the display of \<open>ImageProcessingHandler\<close> fails on the diagnostics
  entry that is \<open>None\<close>.
\<close>

lemma static_marker_display_fails:
  "IPH_process_function ex_collaborators ((), ())
     \<lparr>crops = [\<lparr>area = (0, 0, 100, 100), tracker = ex_tracker [ex_marker (10, 10) True]\<rparr>]\<rparr>
   = Inl TypeError"
  by code_simp

section \<open>Overlap resolution\<close>




section \<open>The naive scenario\<close>

text \<open>
  Claim C5, as amended. One non-static marker stored at (10, 10), only the naive
  estimator enabled, DELTA = 8, the blob list [(12, 11)], in a frame at least 13 wide and
  12 high: \<open>track\<close> returns the position (12, 11) with visibility true, and the
  correction step of the marker's Kalman filter is applied with the measurement (12, 11);
  the flag \<open>kalman\<close> only disables the estimator that uses the prediction.
\<close>

theorem naive_scenario:
  assumes "marker_set t = [m]" "\<not> is_static m" "pos m = (10, 10)"
    and "naive t" "optical_flow t = None" "\<not> kalman t" "DELTA t = 8"
    and "length (estimated_positions t) = 1" "13 \<le> width frame" "12 \<le> height frame"
  shows "\<exists>t'. track E frame [(12, 11)] t =
            Inr (([Some \<lparr>position = (12, 11), visibility = True\<rparr>],
                  [Some [\<lparr>position = (10, 10), visibility = False\<rparr>,
                         \<lparr>position = (12, 11), visibility = True\<rparr>]]), t')
          \<and> marker_set t' = [m\<lparr>kalman_filter := kalman_filter m @ [Correct (12, 11)]\<rparr>]"
proof -
  from assms(8) obtain e where e: "estimated_positions t = [e]"
    by (cases "estimated_positions t") auto
  show ?thesis
    using assms e
    by (simp add: track_def u_track_marker_def u_get_blob_near_position_def append_estimated_def
        find_closest_blob_def sq_dist_def merge_positions_def u_merge_positions_def check_tracking_def
        check_bounds_def Position_check_bounds_def correct_marker_def correct_from_kalman_def Let_def)
qed

theorem naive_scenario_witness:
  "\<exists>t'. track ex_collaborators ex_frame [(12, 11)] (ex_tracker [ex_marker (10, 10) False]) =
            Inr (([Some \<lparr>position = (12, 11), visibility = True\<rparr>],
                  [Some [\<lparr>position = (10, 10), visibility = False\<rparr>,
                         \<lparr>position = (12, 11), visibility = True\<rparr>]]), t')
          \<and> marker_set t' = [(ex_marker (10, 10) False)\<lparr>kalman_filter := [Correct (12, 11)]\<rparr>]"
  using naive_scenario
    [of "ex_tracker [ex_marker (10, 10) False]" "ex_marker (10, 10) False" ex_frame ex_collaborators]
  by (simp add: ex_tracker_def Tracker_init_def ex_marker_def ex_frame_def)

text \<open>
  The claim as stated fails: with \<open>kalman\<close> disabled the filter of the marker, empty
  before the call, has received the call \<open>Correct (12, 11)\<close> after it.
\<close>

theorem naive_scenario_counterexample:
  "track ex_collaborators ex_frame [(12, 11)] (ex_tracker [ex_marker (10, 10) False]) =
     Inr (([Some \<lparr>position = (12, 11), visibility = True\<rparr>],
           [Some [\<lparr>position = (10, 10), visibility = False\<rparr>, \<lparr>position = (12, 11), visibility = True\<rparr>]]),
          \<lparr>marker_set = [\<lparr>name = ''a'', pos = (10, 10), is_static = False, kalman_filter = [Correct (12, 11)]\<rparr>],
           optical_flow = None, kalman = False, naive = True, blobs = [(12, 11)],
           positions = [Some \<lparr>position = (12, 11), visibility = True\<rparr>],
           estimated_positions =
             [Some [\<lparr>position = (10, 10), visibility = False\<rparr>, \<lparr>position = (12, 11), visibility = True\<rparr>]],
           DELTA = 8\<rparr>)"
  by code_simp

section \<open>Markers without a measurement\<close>






section \<open>The handlers\<close>



section \<open>A frame that fails to load\<close>

lemma update_img_fails:
  "c = None \<or> d = None \<Longrightarrow> u_update_img s c d = (False, s)"
  by (simp add: u_update_img_def)

text \<open>
  Claim C7, as amended. Let the loader fail at the next index. In
  \<open>u_process_after_loading\<close> the tick is skipped: nothing is dispatched and the frame,
  the handler and the markers are as they were. In the loop of \<open>process\<close>, which runs
  \<open>u_process_while_loading\<close>, the index advances and the tracking pass on the frame
  currently published is dispatched before the load; after the failed load the frame is
  as it was, the handler and its markers are what that pass made of them, and the loop
  goes on from the next index.
\<close>

theorem failed_load_skips_tick:
  assumes "fst (load_img E (index s + 1)) = None \<or> snd (load_img E (index s + 1)) = None"
  shows "u_process_after_loading E (s\<lparr>index := index s + 1\<rparr>) = Inr (False, s\<lparr>index := index s + 1\<rparr>)
     \<and> u_process_while_loading E (s\<lparr>index := index s + 1\<rparr>) =
         (case IPH_send_process E (frames s) 1 (process_handler s) of
            Inl e \<Rightarrow> Inl e
          | Inr h \<Rightarrow> Inr (False, s\<lparr>index := index s + 1, process_handler := h\<rparr>))
     \<and> (index s \<noteq> end_index s \<longrightarrow>
          process_loop E s =
            (case IPH_send_process E (frames s) 1 (process_handler s) of
               Inl e \<Rightarrow> Some (Inl e)
             | Inr h \<Rightarrow> process_loop E (s\<lparr>index := index s + 1, process_handler := h\<rparr>)))"
proof (intro conjI impI)
  show "u_process_after_loading E (s\<lparr>index := index s + 1\<rparr>) = Inr (False, s\<lparr>index := index s + 1\<rparr>)"
    using assms by (simp add: u_process_after_loading_def u_load_img_def Let_def update_img_fails)
next
  show w: "u_process_while_loading E (s\<lparr>index := index s + 1\<rparr>) =
         (case IPH_send_process E (frames s) 1 (process_handler s) of
            Inl e \<Rightarrow> Inl e
          | Inr h \<Rightarrow> Inr (False, s\<lparr>index := index s + 1, process_handler := h\<rparr>))"
    using assms
    by (simp add: u_process_while_loading_def u_load_img_def Let_def update_img_fails
        IPH_receive_process_def split: sum.splits)
  assume "index s \<noteq> end_index s"
  then show "process_loop E s =
            (case IPH_send_process E (frames s) 1 (process_handler s) of
               Inl e \<Rightarrow> Some (Inl e)
             | Inr h \<Rightarrow> process_loop E (s\<lparr>index := index s + 1, process_handler := h\<rparr>))"
    by (subst process_loop.simps) (simp add: w split: sum.splits)
qed

theorem failed_load_skips_tick_witness:
  "u_process_after_loading ex_collaborators (ex_process_image\<lparr>index := 1\<rparr>)
     = Inr (False, ex_process_image\<lparr>index := 1\<rparr>)
   \<and> process_loop ex_collaborators ex_process_image =
       (case IPH_send_process ex_collaborators (frames ex_process_image) 1 (process_handler ex_process_image) of
          Inl e \<Rightarrow> Some (Inl e)
        | Inr h \<Rightarrow> process_loop ex_collaborators (ex_process_image\<lparr>index := 1, process_handler := h\<rparr>))"
proof -
  have l: "fst (load_img ex_collaborators (index ex_process_image + 1)) = None
           \<or> snd (load_img ex_collaborators (index ex_process_image + 1)) = None"
    by (simp add: ex_collaborators_def)
  have i: "index ex_process_image + 1 = 1" "index ex_process_image \<noteq> end_index ex_process_image"
    by (simp_all add: ex_process_image_def)
  from failed_load_skips_tick [OF l] i show ?thesis by (simp cong: sum.case_cong)
qed

lemma ex_while_loading:
  "u_process_while_loading ex_collaborators (ex_process_image\<lparr>index := index ex_process_image + 1\<rparr>) =
     Inr (False, \<lparr>index = 1, start_index = 0, end_index = 1, frames = ((), ()),
       process_handler = \<lparr>crops = [\<lparr>area = (0, 0, 100, 100),
         tracker =
          \<lparr>marker_set = [\<lparr>name = ''a'', pos = (12, 11), is_static = False, kalman_filter = [Correct (12, 11)]\<rparr>],
           optical_flow = None, kalman = False, naive = True, blobs = [(12, 11)],
           positions = [Some \<lparr>position = (12, 11), visibility = True\<rparr>],
           estimated_positions =
             [Some [\<lparr>position = (10, 10), visibility = False\<rparr>, \<lparr>position = (12, 11), visibility = True\<rparr>]],
           DELTA = 8\<rparr>\<rparr>]\<rparr>\<rparr>)"
  by code_simp

lemma ex_process_loop:
  "process_loop ex_collaborators ex_process_image =
     Some (Inr \<lparr>index = 1, start_index = 0, end_index = 1, frames = ((), ()),
       process_handler = \<lparr>crops = [\<lparr>area = (0, 0, 100, 100),
         tracker =
          \<lparr>marker_set = [\<lparr>name = ''a'', pos = (12, 11), is_static = False, kalman_filter = [Correct (12, 11)]\<rparr>],
           optical_flow = None, kalman = False, naive = True, blobs = [(12, 11)],
           positions = [Some \<lparr>position = (12, 11), visibility = True\<rparr>],
           estimated_positions =
             [Some [\<lparr>position = (10, 10), visibility = False\<rparr>, \<lparr>position = (12, 11), visibility = True\<rparr>]],
           DELTA = 8\<rparr>\<rparr>]\<rparr>\<rparr>)"
proof -
  have ne: "index ex_process_image \<noteq> end_index ex_process_image"
    by (simp add: ex_process_image_def)
  show ?thesis
    apply (subst process_loop.simps)
    apply (simp only: ne if_False ex_while_loading sum.case fst_conv snd_conv simp_thms if_True)
    apply (subst process_loop.simps)
    apply simp
    done
qed

text \<open>
  The claim as stated fails on \<open>process\<close>: the loader fails at index 1, the only tick
  of the run, and yet the marker stored at (10, 10) has been tracked to (12, 11) and its
  filter corrected.
\<close>

theorem failed_load_counterexample:
  "load_img ex_collaborators 1 = (None, None)
   \<and> process ex_collaborators ex_process_image =
     Some (Inr \<lparr>index = 1, start_index = 0, end_index = 1, frames = ((), ()),
       process_handler = \<lparr>crops = [\<lparr>area = (0, 0, 100, 100),
         tracker =
          \<lparr>marker_set = [\<lparr>name = ''a'', pos = (12, 11), is_static = False, kalman_filter = [Correct (12, 11)]\<rparr>],
           optical_flow = None, kalman = False, naive = True, blobs = [(12, 11)],
           positions = [Some \<lparr>position = (12, 11), visibility = True\<rparr>],
           estimated_positions =
             [Some [\<lparr>position = (10, 10), visibility = False\<rparr>, \<lparr>position = (12, 11), visibility = True\<rparr>]],
           DELTA = 8\<rparr>\<rparr>]\<rparr>\<rparr>)"
proof
  show "load_img ex_collaborators 1 = (None, None)"
    by (simp add: ex_collaborators_def)
qed (simp add: process_def ex_process_loop IPH_end_process_def)

section \<open>The methods the camera converter rejects\<close>



end
